theory Spec2Isabelle
  imports Complex_Main
begin

section \<open>The recommendation core of app.py (class RecommendationSystem)\<close>

text \<open>
  The three methods of \<^verbatim>\<open>RecommendationSystem\<close> read three SQLite tables and compute
  with pandas, numpy and scikit-learn. The tables are lists of rows in table order, a
  data frame is the list of its rows, and the library calls are written out as
  functions over lists. Numbers are real numbers: the arithmetic of the library calls
  is exact here, the rounding of binary floating point is not part of the model.
\<close>

subsection \<open>Tables\<close>

text \<open>
  Column \<^verbatim>\<open>usuarios.preferencias\<close> is JSON text written by \<^verbatim>\<open>update_user\<close> with
  \<^verbatim>\<open>json.dumps\<close>. A key of the dictionary may be missing (\<open>None\<close> below), and the
  preference form stores JSON \<^verbatim>\<open>null\<close> under \<^verbatim>\<open>tipo\<close> and \<^verbatim>\<open>provincia\<close> when the user
  picks "qualquer" (\<open>Some JNull\<close>). The two numeric keys hold numbers when present.
\<close>

datatype jtext = JNull | JStr string

record user_prefs =
  pref_tipo :: "jtext option"
  pref_provincia :: "jtext option"
  preco_max :: "real option"
  quartos_min :: "real option"

text \<open>
  What \<^verbatim>\<open>json.loads\<close> makes of the stored text: a dictionary, or the exception it
  raises on text that is not JSON.
\<close>

datatype json_text = Invalid | Object user_prefs

datatype error = JSONDecodeError

text \<open>A row of \<^verbatim>\<open>usuarios\<close>; \<open>preferencias = None\<close> is SQL NULL or the empty text.\<close>

record usuario =
  id_usuario :: int
  preferencias :: "json_text option"

text \<open>
  A row of \<^verbatim>\<open>imoveis\<close>. \<^verbatim>\<open>tipo\<close>, \<^verbatim>\<open>provincia\<close> and \<^verbatim>\<open>preco\<close> are NOT NULL; the other
  three numeric columns may be NULL.
\<close>

record imovel =
  id_imovel :: int
  tipo :: string
  provincia :: string
  preco :: real
  quartos :: "real option"
  banheiros :: "real option"
  area :: "real option"
  status :: string

text \<open>A row of \<^verbatim>\<open>interacoes\<close>.\<close>

record interacao =
  usuario_id :: int
  imovel_id :: int
  tipo_interacao :: string

record database =
  usuarios :: "usuario list"
  imoveis :: "imovel list"
  interacoes :: "interacao list"

text \<open>\<^verbatim>\<open>SELECT * FROM imoveis WHERE status = 'aprovado'\<close>\<close>

definition aprovados :: "database \<Rightarrow> imovel list" where
  "aprovados db = filter (\<lambda>l. status l = ''aprovado'') (imoveis db)"

text \<open>\<^verbatim>\<open>SELECT preferencias FROM usuarios WHERE id = ?\<close>\<close>

definition select_usuario :: "database \<Rightarrow> int \<Rightarrow> usuario list" where
  "select_usuario db user_id = filter (\<lambda>u. id_usuario u = user_id) (usuarios db)"

subsection \<open>Library calls\<close>

text \<open>
  \<^verbatim>\<open>DataFrame.head(n)\<close>: the first \<open>n\<close> rows, and for a negative \<open>n\<close> all rows but the
  last \<open>-n\<close>.
\<close>

definition head :: "int \<Rightarrow> 'a list \<Rightarrow> 'a list" where
  "head n xs = (if 0 \<le> n then take (nat n) xs else take (length xs - nat (- n)) xs)"

text \<open>
  \<^verbatim>\<open>sort_values(ascending=False)\<close>: descending by the key. The default sort kind of
  pandas promises no order among rows with equal keys; the model keeps them in their
  order of the input, which is the order of a stable sort and the one the
  specification describes.
\<close>

definition sort_values_desc :: "('a \<Rightarrow> real) \<Rightarrow> 'a list \<Rightarrow> 'a list" where
  "sort_values_desc key xs = sort_key (\<lambda>x. - key x) xs"

text \<open>
  \<^verbatim>\<open>DataFrame.nlargest(n, column)\<close>: nothing for \<open>n \<le> 0\<close>, else the \<open>n\<close> rows with the
  largest keys in descending order, the first occurrences among equal keys.
\<close>

definition nlargest :: "int \<Rightarrow> ('a \<Rightarrow> real) \<Rightarrow> 'a list \<Rightarrow> 'a list" where
  "nlargest n key xs = (if n \<le> 0 then [] else take (nat n) (sort_values_desc key xs))"

text \<open>\<^verbatim>\<open>drop_duplicates(subset=[column])\<close>: the first row of every key stays.\<close>

fun drop_duplicates_seen :: "('a \<Rightarrow> 'k) \<Rightarrow> 'k list \<Rightarrow> 'a list \<Rightarrow> 'a list" where
  "drop_duplicates_seen key seen [] = []"
| "drop_duplicates_seen key seen (x # xs) =
     (if key x \<in> set seen then drop_duplicates_seen key seen xs
      else x # drop_duplicates_seen key (key x # seen) xs)"

definition drop_duplicates :: "('a \<Rightarrow> 'k) \<Rightarrow> 'a list \<Rightarrow> 'a list" where
  "drop_duplicates key xs = drop_duplicates_seen key [] xs"

text \<open>
  \<^verbatim>\<open>Series.value_counts()\<close>: every distinct value with the number of its occurrences,
  tallied in the order of first occurrence and then put in descending order of the
  count.
\<close>

fun tally :: "'k \<Rightarrow> ('k \<times> nat) list \<Rightarrow> ('k \<times> nat) list" where
  "tally x [] = [(x, 1)]"
| "tally x ((y, c) # rest) = (if x = y then (y, Suc c) # rest else (y, c) # tally x rest)"

definition value_counts :: "'k list \<Rightarrow> ('k \<times> nat) list" where
  "value_counts xs = sort_values_desc (\<lambda>p. real (snd p)) (fold tally xs [])"

text \<open>
  \<^verbatim>\<open>sklearn.metrics.pairwise.cosine_similarity(X, Y)\<close>: the rows of both matrices are
  scaled to length one, a row of length zero is left as it is, and the entry for a
  pair of rows is the dot product.
\<close>

definition dot :: "real list \<Rightarrow> real list \<Rightarrow> real" where
  "dot xs ys = sum_list (map (\<lambda>(x, y). x * y) (zip xs ys))"

definition row_norm :: "real list \<Rightarrow> real" where
  "row_norm xs = sqrt (dot xs xs)"

definition normalize :: "real list \<Rightarrow> real list" where
  "normalize xs = (let nrm = row_norm xs in map (\<lambda>x. x / (if nrm = 0 then 1 else nrm)) xs)"

definition cosine_similarity :: "real list list \<Rightarrow> real list list \<Rightarrow> real list list" where
  "cosine_similarity X Y = map (\<lambda>x. map (\<lambda>y. dot (normalize x) (normalize y)) Y) X"

text \<open>
  \<^verbatim>\<open>sklearn.preprocessing.StandardScaler\<close>: \<^verbatim>\<open>fit\<close> keeps the mean and the standard
  deviation (of the population, dividing by the number of rows) of every column, with
  the deviation of a constant column replaced by one; \<^verbatim>\<open>transform\<close> subtracts the
  kept mean and divides by the kept deviation.
\<close>

definition column :: "nat \<Rightarrow> real list list \<Rightarrow> real list" where
  "column j X = map (\<lambda>row. row ! j) X"

definition mean :: "real list \<Rightarrow> real" where
  "mean xs = sum_list xs / real (length xs)"

definition variance :: "real list \<Rightarrow> real" where
  "variance xs = sum_list (map (\<lambda>x. (x - mean xs) * (x - mean xs)) xs) / real (length xs)"

definition handle_zeros_in_scale :: "real \<Rightarrow> real" where
  "handle_zeros_in_scale s = (if s = 0 then 1 else s)"

record scaler =
  scaler_mean :: "real list"
  scaler_scale :: "real list"

definition fit :: "nat \<Rightarrow> real list list \<Rightarrow> scaler" where
  "fit ncols X =
     \<lparr> scaler_mean = map (\<lambda>j. mean (column j X)) [0..<ncols],
       scaler_scale = map (\<lambda>j. handle_zeros_in_scale (sqrt (variance (column j X)))) [0..<ncols] \<rparr>"

definition transform_row :: "scaler \<Rightarrow> real list \<Rightarrow> real list" where
  "transform_row sc row =
     map (\<lambda>(x, m, s). (x - m) / s) (zip row (zip (scaler_mean sc) (scaler_scale sc)))"

definition transform :: "scaler \<Rightarrow> real list list \<Rightarrow> real list list" where
  "transform sc X = map (transform_row sc) X"

definition fit_transform :: "nat \<Rightarrow> real list list \<Rightarrow> real list list" where
  "fit_transform ncols X = transform (fit ncols X) X"

subsection \<open>get\_content\_based\_recommendations\<close>

definition default_prefs :: user_prefs where
  "default_prefs =
     \<lparr> pref_tipo = Some (JStr ''casa''), pref_provincia = Some (JStr ''Luanda''),
       preco_max = Some 50000000, quartos_min = None \<rparr>"

text \<open>
  \<^verbatim>\<open>if not user_df.empty and user_df['preferencias'].iloc[0]: json.loads(...)\<close>,
  \<^verbatim>\<open>else:\<close> the default dictionary.
\<close>

definition load_prefs :: "usuario list \<Rightarrow> error + user_prefs" where
  "load_prefs user_df =
     (case user_df of
        [] \<Rightarrow> Inr default_prefs
      | u # _ \<Rightarrow>
          (case preferencias u of
             None \<Rightarrow> Inr default_prefs
           | Some Invalid \<Rightarrow> Inl JSONDecodeError
           | Some (Object p) \<Rightarrow> Inr p))"

definition features :: "string list" where
  "features = [''preco'', ''quartos'', ''banheiros'', ''area'']"

definition fillna :: "real \<Rightarrow> real option \<Rightarrow> real" where
  "fillna d v = (case v of None \<Rightarrow> d | Some x \<Rightarrow> x)"

definition feature_value :: "string \<Rightarrow> imovel \<Rightarrow> real option" where
  "feature_value f l =
     (if f = ''preco'' then Some (preco l)
      else if f = ''quartos'' then quartos l
      else if f = ''banheiros'' then banheiros l
      else area l)"

text \<open>\<^verbatim>\<open>imoveis_df[features].fillna(0)\<close>\<close>

definition imoveis_features :: "imovel list \<Rightarrow> real list list" where
  "imoveis_features imoveis_df = map (\<lambda>l. map (\<lambda>f. fillna 0 (feature_value f l)) features) imoveis_df"

text \<open>The loop over \<^verbatim>\<open>enumerate(features)\<close> that fills \<^verbatim>\<open>user_vector\<close>.\<close>

fun user_vector_loop :: "user_prefs \<Rightarrow> (nat \<times> string) list \<Rightarrow> real list \<Rightarrow> real list" where
  "user_vector_loop prefs [] uv = uv"
| "user_vector_loop prefs ((i, feature) # rest) uv =
     (if feature = ''preco'' \<and> preco_max prefs \<noteq> None
        then user_vector_loop prefs rest (uv[i := the (preco_max prefs)])
      else if feature = ''quartos'' \<and> quartos_min prefs \<noteq> None
        then user_vector_loop prefs rest (uv[i := the (quartos_min prefs)])
      else user_vector_loop prefs rest uv)"

definition user_vector :: "user_prefs \<Rightarrow> real list" where
  "user_vector prefs =
     user_vector_loop prefs (enumerate 0 features) (replicate (length features) 0)"

text \<open>
  \<^verbatim>\<open>imoveis_df[imoveis_df[column] == user_prefs[key]]\<close> under \<^verbatim>\<open>if key in user_prefs\<close>:
  a text column never equals \<^verbatim>\<open>None\<close>, so the comparison is equality of JSON values.
\<close>

definition filter_pref :: "jtext option \<Rightarrow> (imovel \<Rightarrow> string) \<Rightarrow> (imovel \<times> real) list \<Rightarrow> (imovel \<times> real) list" where
  "filter_pref pref col rows =
     (case pref of
        None \<Rightarrow> rows
      | Some v \<Rightarrow> filter (\<lambda>r. JStr (col (fst r)) = v) rows)"

text \<open>The standardised preference vector, \<^verbatim>\<open>scaler.transform([user_vector])\<close>.\<close>

definition user_vector_std :: "imovel list \<Rightarrow> user_prefs \<Rightarrow> real list list" where
  "user_vector_std imoveis_df prefs =
     transform (fit (length features) (imoveis_features imoveis_df)) [user_vector prefs]"

text \<open>
  The column \<^verbatim>\<open>similaridade\<close>: row 0 of the similarity matrix, which has that one row
  only.
\<close>

definition similarities :: "imovel list \<Rightarrow> user_prefs \<Rightarrow> real list" where
  "similarities imoveis_df prefs =
     concat (cosine_similarity (user_vector_std imoveis_df prefs)
               (fit_transform (length features) (imoveis_features imoveis_df)))"

text \<open>
  The result is the list of catalog rows; the score column that ranks them is not
  carried in the rows.
\<close>

definition get_content_based_recommendations :: "database \<Rightarrow> int \<Rightarrow> int \<Rightarrow> error + imovel list" where
  "get_content_based_recommendations db user_id n_recommendations =
     (let user_df = select_usuario db user_id;
          imoveis_df = aprovados db
      in if imoveis_df = [] then Inr []
         else
           (case load_prefs user_df of
              Inl e \<Rightarrow> Inl e
            | Inr prefs \<Rightarrow>
                (let scored = zip imoveis_df (similarities imoveis_df prefs);
                     by_tipo = filter_pref (pref_tipo prefs) tipo scored;
                     by_provincia = filter_pref (pref_provincia prefs) provincia by_tipo
                 in Inr (map fst (nlargest n_recommendations snd by_provincia)))))"

subsection \<open>get\_collaborative\_recommendations\<close>

text \<open>
  \<^verbatim>\<open>pd.pivot_table(..., index='usuario_id', columns='imovel_id', aggfunc='count',
  fill_value=0)\<close>: the row labels and the column labels are the distinct ids in
  ascending order, a cell counts the rows of the log for its pair.
\<close>

definition pivot_index :: "interacao list \<Rightarrow> int list" where
  "pivot_index idf = sort (remdups (map usuario_id idf))"

definition pivot_columns :: "interacao list \<Rightarrow> int list" where
  "pivot_columns idf = sort (remdups (map imovel_id idf))"

definition pivot_row :: "interacao list \<Rightarrow> int \<Rightarrow> real list" where
  "pivot_row idf u =
     map (\<lambda>c. real (length (filter (\<lambda>r. usuario_id r = u \<and> imovel_id r = c) idf)))
       (pivot_columns idf)"

definition user_item_matrix :: "interacao list \<Rightarrow> real list list" where
  "user_item_matrix idf = map (pivot_row idf) (pivot_index idf)"

text \<open>
  \<^verbatim>\<open>user_sim_df[user_id]\<close>: the column of the similarity matrix for the target user,
  labelled by the users. Its entry for a user is the similarity of that user's row and
  the target's row, so only this column of \<^verbatim>\<open>cosine_similarity(user_item_matrix)\<close> is
  computed.
\<close>

definition user_sim_column :: "interacao list \<Rightarrow> int \<Rightarrow> (int \<times> real) list" where
  "user_sim_column idf user_id =
     zip (pivot_index idf)
       (concat (cosine_similarity (user_item_matrix idf) [pivot_row idf user_id]))"

text \<open>\<^verbatim>\<open>user_sim_df[user_id].sort_values(ascending=False)[1:11]\<close>, and its index.\<close>

definition similar_users :: "interacao list \<Rightarrow> int \<Rightarrow> int list" where
  "similar_users idf user_id =
     map fst (take 10 (drop 1 (sort_values_desc snd (user_sim_column idf user_id))))"

definition similar_users_interactions :: "interacao list \<Rightarrow> int \<Rightarrow> interacao list" where
  "similar_users_interactions idf user_id =
     filter (\<lambda>r. usuario_id r \<in> set (similar_users idf user_id)) idf"

text \<open>\<^verbatim>\<open>similar_users_interactions['imovel_id'].value_counts().head(n)\<close>, and its index.\<close>

definition recommended_imoveis :: "interacao list \<Rightarrow> int \<Rightarrow> int \<Rightarrow> int list" where
  "recommended_imoveis idf user_id n =
     map fst (head n (value_counts (map imovel_id (similar_users_interactions idf user_id))))"

definition get_collaborative_recommendations :: "database \<Rightarrow> int \<Rightarrow> int \<Rightarrow> error + imovel list" where
  "get_collaborative_recommendations db user_id n_recommendations =
     (let interacoes_df = interacoes db;
          imoveis_df = aprovados db
      in if interacoes_df = [] \<or> imoveis_df = [] then Inr []
         else if user_id \<notin> set (pivot_index interacoes_df) then Inr []
         else Inr (filter (\<lambda>l. id_imovel l \<in> set (recommended_imoveis interacoes_df user_id n_recommendations))
                     imoveis_df))"

subsection \<open>get\_hybrid\_recommendations\<close>

text \<open>The part after the two calls: the three tests for empty frames and the merge.\<close>

definition combine :: "imovel list \<Rightarrow> imovel list \<Rightarrow> int \<Rightarrow> imovel list" where
  "combine content_recs collab_recs n_recommendations =
     (if content_recs = [] \<and> collab_recs = [] then []
      else if content_recs = [] then collab_recs
      else if collab_recs = [] then content_recs
      else head n_recommendations (drop_duplicates id_imovel (content_recs @ collab_recs)))"

definition get_hybrid_recommendations :: "database \<Rightarrow> int \<Rightarrow> int \<Rightarrow> error + imovel list" where
  "get_hybrid_recommendations db user_id n_recommendations =
     (case get_content_based_recommendations db user_id n_recommendations of
        Inl e \<Rightarrow> Inl e
      | Inr content_recs \<Rightarrow>
          (case get_collaborative_recommendations db user_id n_recommendations of
             Inl e \<Rightarrow> Inl e
           | Inr collab_recs \<Rightarrow> Inr (combine content_recs collab_recs n_recommendations)))"

subsection \<open>The reading of the specification that two claims are compared with\<close>


text \<open>
  The specification's reading of the collaborative result: the catalog records of the
  ranked ids, in the order of the ranking.
\<close>

definition records_in_ranking_order :: "int list \<Rightarrow> imovel list \<Rightarrow> imovel list" where
  "records_in_ranking_order ids imoveis_df =
     concat (map (\<lambda>i. filter (\<lambda>l. id_imovel l = i) imoveis_df) ids)"

subsection \<open>A small database\<close>

text \<open>
  Two approved listings that agree on the four numeric features, one pending listing,
  three users with stored preferences and five rows of interactions by four users.
\<close>

definition imovel_1 :: imovel where
  "imovel_1 = \<lparr> id_imovel = 1, tipo = ''casa'', provincia = ''Luanda'', preco = 10,
       quartos = Some 2, banheiros = None, area = None, status = ''aprovado'' \<rparr>"

definition imovel_2 :: imovel where
  "imovel_2 = \<lparr> id_imovel = 2, tipo = ''apartamento'', provincia = ''Benguela'', preco = 10,
       quartos = Some 2, banheiros = None, area = None, status = ''aprovado'' \<rparr>"

definition imovel_3 :: imovel where
  "imovel_3 = \<lparr> id_imovel = 3, tipo = ''apartamento'', provincia = ''Luanda'', preco = 50,
       quartos = Some 4, banheiros = Some 2, area = Some 90, status = ''pendente'' \<rparr>"

text \<open>What the preference form saves for apartamento, Benguela, 10 and 2.\<close>

definition prefs_benguela :: user_prefs where
  "prefs_benguela =
     \<lparr> pref_tipo = Some (JStr ''apartamento''), pref_provincia = Some (JStr ''Benguela''),
       preco_max = Some 10, quartos_min = Some 2 \<rparr>"

text \<open>What the preference form saves for qualquer, Benguela, 10 and 2.\<close>

definition prefs_qualquer :: user_prefs where
  "prefs_qualquer =
     \<lparr> pref_tipo = Some JNull, pref_provincia = Some (JStr ''Benguela''),
       preco_max = Some 10, quartos_min = Some 2 \<rparr>"

text \<open>A stored record without the key tipo.\<close>

definition prefs_sem_tipo :: user_prefs where
  "prefs_sem_tipo =
     \<lparr> pref_tipo = None, pref_provincia = Some (JStr ''Benguela''),
       preco_max = Some 10, quartos_min = Some 2 \<rparr>"

definition view :: "int \<Rightarrow> int \<Rightarrow> interacao" where
  "view u i = \<lparr> usuario_id = u, imovel_id = i, tipo_interacao = ''view'' \<rparr>"

definition db_exemplo :: database where
  "db_exemplo =
     \<lparr> usuarios =
         [\<lparr> id_usuario = 1, preferencias = Some (Object prefs_benguela) \<rparr>,
          \<lparr> id_usuario = 2, preferencias = Some (Object prefs_qualquer) \<rparr>,
          \<lparr> id_usuario = 5, preferencias = Some (Object prefs_sem_tipo) \<rparr>],
       imoveis = [imovel_1, imovel_2, imovel_3],
       interacoes = [view 1 1, view 2 2, view 3 2, view 4 1, view 2 3] \<rparr>"


section \<open>Facts about the library calls\<close>

lemma head_nonneg: "0 \<le> n \<Longrightarrow> head n xs = take (nat n) xs"
  by (simp add: head_def)

lemma head_id: "int (length xs) \<le> n \<Longrightarrow> head n xs = xs"
  by (simp add: head_def)

lemma length_nlargest: "0 \<le> n \<Longrightarrow> int (length (nlargest n key xs)) \<le> n"
  by (auto simp: nlargest_def)

lemma set_nlargest: "set (nlargest n key xs) \<subseteq> set xs"
  by (auto simp: nlargest_def sort_values_desc_def dest: in_set_takeD)


lemma distinct_map_sort_key: "distinct (map f (sort_key k xs)) = distinct (map f xs)"
  by (simp add: distinct_map)

lemma distinct_map_take: "distinct (map f xs) \<Longrightarrow> distinct (map f (take n xs))"
  by (simp add: take_map [symmetric])

lemma distinct_map_nlargest: "distinct (map f xs) \<Longrightarrow> distinct (map f (nlargest n key xs))"
  by (simp add: nlargest_def sort_values_desc_def distinct_map_take distinct_map_sort_key)

lemma drop_duplicates_seen_distinct:
  "distinct (map key xs) \<Longrightarrow> drop_duplicates_seen key seen xs = filter (\<lambda>x. key x \<notin> set seen) xs"
proof (induction xs arbitrary: seen)
  case Nil
  then show ?case by simp
next
  case (Cons x xs)
  have "key y \<noteq> key x" if "y \<in> set xs" for y
    using Cons.prems that by (auto simp: image_iff)
  then have "filter (\<lambda>y. key y \<notin> set (key x # seen)) xs = filter (\<lambda>y. key y \<notin> set seen) xs"
    by (intro filter_cong) auto
  with Cons show ?case by simp
qed

lemma drop_duplicates_seen_append:
  "distinct (map key xs) \<Longrightarrow> key ` set xs \<inter> set seen = {} \<Longrightarrow>
   drop_duplicates_seen key seen (xs @ ys) = xs @ drop_duplicates_seen key (rev (map key xs) @ seen) ys"
  by (induction xs arbitrary: seen) auto

lemma drop_duplicates_append:
  assumes "distinct (map key xs)" "distinct (map key ys)"
  shows "drop_duplicates key (xs @ ys) = xs @ filter (\<lambda>y. key y \<notin> key ` set xs) ys"
  using assms
  by (simp add: drop_duplicates_def drop_duplicates_seen_append drop_duplicates_seen_distinct)

lemma length_filter_ids:
  assumes "distinct (map key xs)"
  shows "length (filter (\<lambda>x. key x \<in> set ids) xs) \<le> length ids"
proof -
  let ?ys = "filter (\<lambda>x. key x \<in> set ids) xs"
  have d: "distinct (map key ?ys)" using assms by (rule distinct_map_filter)
  have "length ?ys = length (map key ?ys)" by simp
  also have "\<dots> = card (set (map key ?ys))" using distinct_card [OF d] by simp
  also have "\<dots> \<le> card (set ids)" by (rule card_mono) auto
  also have "\<dots> \<le> length ids" by (rule card_length)
  finally show ?thesis .
qed

lemma length_head: "0 \<le> n \<Longrightarrow> int (length (head n xs)) \<le> n"
  by (simp add: head_def)

lemma distinct_filter_pref: "distinct (map f rows) \<Longrightarrow> distinct (map f (filter_pref p col rows))"
  by (auto simp: filter_pref_def distinct_map_filter split: option.splits)

lemma distinct_zip_fst: "distinct (map f xs) \<Longrightarrow> distinct (map (\<lambda>r. f (fst r)) (zip xs ys))"
proof -
  assume d: "distinct (map f xs)"
  have "map (\<lambda>r. f (fst r)) (zip xs ys) = map f (map fst (zip xs ys))"
    by simp
  also have "\<dots> = map f (take (min (length xs) (length ys)) xs)"
    by (simp only: map_fst_zip_take)
  finally have "map (\<lambda>r. f (fst r)) (zip xs ys) = map f (take (min (length xs) (length ys)) xs)" .
  then show ?thesis using d by (simp add: distinct_map_take)
qed

subsection \<open>The tally of value\_counts\<close>

lemma tally_keys:
  "map fst (tally x acc) = (if x \<in> fst ` set acc then map fst acc else map fst acc @ [x])"
  by (induction acc) force+

lemma drop_duplicates_seen_cong:
  "set s1 = set s2 \<Longrightarrow> drop_duplicates_seen key s1 xs = drop_duplicates_seen key s2 xs"
proof (induction xs arbitrary: s1 s2)
  case Nil
  then show ?case by simp
next
  case (Cons x xs)
  have "set (key x # s1) = set (key x # s2)" using Cons.prems by simp
  then have "drop_duplicates_seen key (key x # s1) xs = drop_duplicates_seen key (key x # s2) xs"
    by (rule Cons.IH)
  moreover have "drop_duplicates_seen key s1 xs = drop_duplicates_seen key s2 xs"
    using Cons.prems by (rule Cons.IH)
  ultimately show ?case using Cons.prems by simp
qed

lemma fold_tally_keys:
  "map fst (fold tally xs acc) = map fst acc @ drop_duplicates_seen (\<lambda>x. x) (map fst acc) xs"
proof (induction xs arbitrary: acc)
  case Nil
  then show ?case by simp
next
  case (Cons x xs)
  show ?case
  proof (cases "x \<in> fst ` set acc")
    case True
    then show ?thesis by (simp add: Cons.IH tally_keys)
  next
    case False
    have "drop_duplicates_seen (\<lambda>x. x) (map fst acc @ [x]) xs
        = drop_duplicates_seen (\<lambda>x. x) (x # map fst acc) xs"
      by (rule drop_duplicates_seen_cong) auto
    with False show ?thesis by (simp add: Cons.IH tally_keys)
  qed
qed

lemma drop_duplicates_seen_props:
  "distinct (drop_duplicates_seen (\<lambda>x. x) seen xs)
   \<and> set (drop_duplicates_seen (\<lambda>x. x) seen xs) = set xs - set seen"
  by (induction xs arbitrary: seen) auto

lemma fold_tally_first_seen: "map fst (fold tally xs []) = drop_duplicates (\<lambda>x. x) xs"
  by (simp add: fold_tally_keys drop_duplicates_def)

lemma distinct_fold_tally: "distinct (map fst (fold tally xs []))"
  by (simp add: fold_tally_keys drop_duplicates_seen_props)

lemma tally_map_of:
  "map_of (tally x acc) = (map_of acc)(x \<mapsto> (case map_of acc x of None \<Rightarrow> 1 | Some c \<Rightarrow> Suc c))"
  by (induction acc) (auto simp: fun_eq_iff)

lemma fold_tally_map_of:
  "map_of (fold tally xs acc) k =
     (if k \<in> set xs
      then Some (count_list xs k + (case map_of acc k of None \<Rightarrow> 0 | Some c \<Rightarrow> c))
      else map_of acc k)"
  by (induction xs arbitrary: acc) (auto simp: tally_map_of split: option.splits)

lemma fold_tally_counts:
  "(k, c) \<in> set (fold tally xs []) \<longleftrightarrow> k \<in> set xs \<and> c = count_list xs k"
proof -
  have "(k, c) \<in> set (fold tally xs []) \<longleftrightarrow> map_of (fold tally xs []) k = Some c"
    using distinct_fold_tally [of xs] by simp
  then show ?thesis by (auto simp: fold_tally_map_of)
qed

lemma value_counts_counts:
  "(k, c) \<in> set (value_counts xs) \<longleftrightarrow> k \<in> set xs \<and> c = count_list xs k"
  by (simp add: value_counts_def sort_values_desc_def fold_tally_counts)

lemma value_counts_distinct: "distinct (map fst (value_counts xs))"
  by (simp add: value_counts_def sort_values_desc_def distinct_map_sort_key distinct_fold_tally)

lemma sorted_wrt_desc:
  "sorted (map (\<lambda>p. - real (snd p)) ps) \<Longrightarrow> sorted_wrt (\<lambda>p q. snd q \<le> snd p) ps"
  by (induction ps) auto

lemma value_counts_sorted: "sorted_wrt (\<lambda>p q. snd q \<le> snd p) (value_counts xs)"
  unfolding value_counts_def sort_values_desc_def by (rule sorted_wrt_desc) simp

lemma value_counts_stable:
  "filter (\<lambda>p. snd p = c) (value_counts xs) = filter (\<lambda>p. snd p = c) (fold tally xs [])"
proof -
  have "filter (\<lambda>p. - real (snd p) = - real c) (sort_key (\<lambda>p. - real (snd p)) (fold tally xs []))
      = filter (\<lambda>p. - real (snd p) = - real c) (fold tally xs [])"
    by (rule sort_key_stable)
  then show ?thesis by (simp add: value_counts_def sort_values_desc_def)
qed

subsection \<open>Mean, variance and the fitted scaler\<close>

lemma length_features: "length features = 4"
  by (simp add: features_def)

lemma upt4: "[0..<4] = [0, 1, 2, 3]"
  by (simp add: upt_rec)





section \<open>The shape of the three results\<close>

lemma distinct_aprovados: "distinct (map id_imovel (imoveis db)) \<Longrightarrow> distinct (map id_imovel (aprovados db))"
  by (simp add: aprovados_def distinct_map_filter)

lemma collab_cases:
  "get_collaborative_recommendations db user_id n = Inr rs \<Longrightarrow>
   rs = [] \<or> rs = filter (\<lambda>l. id_imovel l \<in> set (recommended_imoveis (interacoes db) user_id n)) (aprovados db)"
  by (auto simp: get_collaborative_recommendations_def Let_def split: if_splits)

lemma collab_length:
  assumes "0 \<le> n" "distinct (map id_imovel (imoveis db))"
    and "get_collaborative_recommendations db user_id n = Inr rs"
  shows "int (length rs) \<le> n"
proof -
  let ?ids = "recommended_imoveis (interacoes db) user_id n"
  have "length (filter (\<lambda>l. id_imovel l \<in> set ?ids) (aprovados db)) \<le> length ?ids"
    using assms(2) by (intro length_filter_ids distinct_aprovados)
  moreover have "int (length ?ids) \<le> n"
    using assms(1) by (simp add: recommended_imoveis_def length_head)
  ultimately show ?thesis using collab_cases [OF assms(3)] assms(1) by auto
qed

lemma collab_distinct:
  assumes "distinct (map id_imovel (imoveis db))"
    and "get_collaborative_recommendations db user_id n = Inr rs"
  shows "distinct (map id_imovel rs)"
  using collab_cases [OF assms(2)] distinct_aprovados [OF assms(1)]
  by (auto simp: distinct_map_filter)

lemma length_similar_users: "length (similar_users idf user_id) \<le> 10"
  by (simp add: similar_users_def)

lemma set_pivot_index: "set (pivot_index idf) = usuario_id ` set idf"
  by (simp add: pivot_index_def)

lemma content_cases:
  assumes "get_content_based_recommendations db user_id n = Inr rs"
  shows "rs = [] \<or> (\<exists>prefs. load_prefs (select_usuario db user_id) = Inr prefs \<and>
            rs = map fst (nlargest n snd
              (filter_pref (pref_provincia prefs) provincia
                 (filter_pref (pref_tipo prefs) tipo
                    (zip (aprovados db) (similarities (aprovados db) prefs))))))"
  using assms
  by (auto simp: get_content_based_recommendations_def Let_def split: if_splits sum.splits)

lemma content_length:
  assumes "0 \<le> n" "get_content_based_recommendations db user_id n = Inr rs"
  shows "int (length rs) \<le> n"
  using content_cases [OF assms(2)] assms(1) by (auto simp: length_nlargest)

lemma content_distinct:
  assumes "distinct (map id_imovel (imoveis db))"
    and "get_content_based_recommendations db user_id n = Inr rs"
  shows "distinct (map id_imovel rs)"
proof -
  have "distinct (map (\<lambda>r. id_imovel (fst r)) (nlargest n snd (filter_pref p2 provincia
          (filter_pref p1 tipo (zip (aprovados db) sims)))))" for p1 p2 sims
    by (intro distinct_map_nlargest distinct_filter_pref distinct_zip_fst distinct_aprovados assms(1))
  then show ?thesis using content_cases [OF assms(2)] by (auto simp: comp_def)
qed



lemma filter_pref_mem:
  "r \<in> set (filter_pref pref col rows) \<longleftrightarrow>
     r \<in> set rows \<and> (pref = None \<or> pref = Some (JStr (col (fst r))))"
  by (auto simp: filter_pref_def split: option.splits)



lemma content_matches_prefs:
  assumes "get_content_based_recommendations db user_id n = Inr rs"
    and "load_prefs (select_usuario db user_id) = Inr prefs"
    and "l \<in> set rs"
  shows "(pref_tipo prefs = None \<or> pref_tipo prefs = Some (JStr (tipo l)))
       \<and> (pref_provincia prefs = None \<or> pref_provincia prefs = Some (JStr (provincia l)))"
proof -
  from content_cases [OF assms(1)] assms(2,3)
  have "l \<in> fst ` set (nlargest n snd
          (filter_pref (pref_provincia prefs) provincia
             (filter_pref (pref_tipo prefs) tipo
                (zip (aprovados db) (similarities (aprovados db) prefs)))))"
    by auto
  then obtain r where r: "fst r = l"
    "r \<in> set (filter_pref (pref_provincia prefs) provincia
             (filter_pref (pref_tipo prefs) tipo
                (zip (aprovados db) (similarities (aprovados db) prefs))))"
    using set_nlargest by fastforce
  then show ?thesis by (auto simp: filter_pref_mem)
qed

section \<open>The small database, evaluated\<close>

lemma aprovados_exemplo: "aprovados db_exemplo = [imovel_1, imovel_2]"
  by (simp add: aprovados_def db_exemplo_def imovel_1_def imovel_2_def imovel_3_def)

lemma features_exemplo: "imoveis_features [imovel_1, imovel_2] = [[10, 2, 0, 0], [10, 2, 0, 0]]"
  by (simp add: imoveis_features_def features_def fillna_def feature_value_def imovel_1_def imovel_2_def)

lemma fit_exemplo: "fit 4 [[10, 2, 0, 0], [10, 2, 0, 0]] = \<lparr> scaler_mean = [10, 2, 0, 0], scaler_scale = [1, 1, 1, 1] \<rparr>"
  by (simp add: fit_def upt4 column_def mean_def variance_def handle_zeros_in_scale_def)

lemma fit_transform_exemplo: "fit_transform 4 [[10, 2, 0, 0], [10, 2, 0, 0]] = [[0, 0, 0, 0], [0, 0, 0, 0]]"
  by (simp add: fit_transform_def fit_exemplo transform_def transform_row_def)

lemma normalize_zeros: "normalize [0, 0, 0, 0] = [0, 0, 0, 0]"
  by (simp add: normalize_def row_norm_def dot_def)

lemma load_prefs_1: "load_prefs (select_usuario db_exemplo 1) = Inr prefs_benguela"
  by (simp add: load_prefs_def select_usuario_def db_exemplo_def)

lemma dot_zeros: "set ys \<subseteq> {0} \<Longrightarrow> dot xs ys = 0"
proof -
  assume z: "set ys \<subseteq> {0}"
  have "p \<in> set (zip xs ys) \<Longrightarrow> (case p of (x, y) \<Rightarrow> x * y) = 0" for p
    using z by (cases p) (auto dest: set_zip_rightD)
  then have "map (\<lambda>(x, y). x * y) (zip xs ys) = map (\<lambda>p. 0) (zip xs ys)"
    by simp
  then have "sum_list (map (\<lambda>(x, y). x * y) (zip xs ys)) = 0"
    by (simp only: sum_list_0)
  then show ?thesis by (simp only: dot_def)
qed

lemma similarities_exemplo: "similarities [imovel_1, imovel_2] prefs = [0, 0]"
  by (simp add: similarities_def user_vector_std_def transform_def length_features features_exemplo fit_transform_exemplo
      cosine_similarity_def normalize_zeros dot_zeros)


lemma load_prefs_2: "load_prefs (select_usuario db_exemplo 2) = Inr prefs_qualquer"
  by (simp add: load_prefs_def select_usuario_def db_exemplo_def)



lemma content_1: "get_content_based_recommendations db_exemplo 1 5 = Inr [imovel_2]"
  by (simp add: get_content_based_recommendations_def aprovados_exemplo load_prefs_1 similarities_exemplo)
     (simp add: filter_pref_def prefs_benguela_def imovel_1_def imovel_2_def nlargest_def
        sort_values_desc_def)

lemma content_2: "get_content_based_recommendations db_exemplo 2 5 = Inr []"
  by (simp add: get_content_based_recommendations_def aprovados_exemplo load_prefs_2 similarities_exemplo)
     (simp add: filter_pref_def prefs_qualquer_def imovel_1_def imovel_2_def nlargest_def
        sort_values_desc_def)



lemma content_1_neg: "get_content_based_recommendations db_exemplo 1 (- 1) = Inr []"
  by (simp add: get_content_based_recommendations_def aprovados_exemplo load_prefs_1 nlargest_def)

lemma interacoes_exemplo:
  "interacoes db_exemplo = [view 1 1, view 2 2, view 3 2, view 4 1, view 2 3]"
  by (simp add: db_exemplo_def)

lemma sim_column_4:
  "user_sim_column (interacoes db_exemplo) 4 = [(1, 1), (2, 0), (3, 0), (4, 1)]"
  by (simp add: interacoes_exemplo view_def user_sim_column_def pivot_index_def pivot_row_def
      pivot_columns_def user_item_matrix_def cosine_similarity_def normalize_def row_norm_def dot_def)

lemma sim_column_1:
  "user_sim_column (interacoes db_exemplo) 1 = [(1, 1), (2, 0), (3, 0), (4, 1)]"
  by (simp add: interacoes_exemplo view_def user_sim_column_def pivot_index_def pivot_row_def
      pivot_columns_def user_item_matrix_def cosine_similarity_def normalize_def row_norm_def dot_def)

lemma similar_users_4: "similar_users (interacoes db_exemplo) 4 = [4, 2, 3]"
  by (simp add: similar_users_def sim_column_4 sort_values_desc_def)

lemma similar_users_1: "similar_users (interacoes db_exemplo) 1 = [4, 2, 3]"
  by (simp add: similar_users_def sim_column_1 sort_values_desc_def)

lemma neighbour_rows_1:
  "map imovel_id (similar_users_interactions (interacoes db_exemplo) 1) = [2, 2, 1, 3]"
  by (simp add: similar_users_interactions_def similar_users_1) (simp add: interacoes_exemplo view_def)

lemma value_counts_exemplo: "value_counts [2, 2, 1, 3 :: int] = [(2, 2), (1, 1), (3, 1)]"
  by (simp add: value_counts_def sort_values_desc_def)

lemma recommended_1: "recommended_imoveis (interacoes db_exemplo) 1 5 = [2, 1, 3]"
  by (simp add: recommended_imoveis_def neighbour_rows_1 value_counts_exemplo head_def)

lemma recommended_1_neg: "recommended_imoveis (interacoes db_exemplo) 1 (- 1) = [2, 1]"
  by (simp add: recommended_imoveis_def neighbour_rows_1 value_counts_exemplo head_def)

lemma pivot_index_exemplo: "pivot_index (interacoes db_exemplo) = [1, 2, 3, 4]"
  by (simp add: interacoes_exemplo view_def pivot_index_def)

lemma interacoes_nonempty: "interacoes db_exemplo \<noteq> []"
  by (simp add: db_exemplo_def)

lemma collab_1: "get_collaborative_recommendations db_exemplo 1 5 = Inr [imovel_1, imovel_2]"
  by (simp add: get_collaborative_recommendations_def Let_def aprovados_exemplo recommended_1 pivot_index_exemplo
      interacoes_nonempty imovel_1_def imovel_2_def)

lemma collab_1_neg: "get_collaborative_recommendations db_exemplo 1 (- 1) = Inr [imovel_1, imovel_2]"
  by (simp add: get_collaborative_recommendations_def Let_def aprovados_exemplo recommended_1_neg pivot_index_exemplo
      interacoes_nonempty imovel_1_def imovel_2_def)


lemma hybrid_1_neg: "get_hybrid_recommendations db_exemplo 1 (- 1) = Inr [imovel_1, imovel_2]"
  by (simp add: get_hybrid_recommendations_def content_1_neg collab_1_neg combine_def)

section \<open>The claims\<close>

text \<open>
  Claim C1. A stored type or province restricts the content result to listings of
  exactly that value (lemma \<open>content_matches_prefs\<close>), and a missing key drops
  nothing. The preference form stores JSON null for "qualquer", though, and then the
  comparison of the text column with null holds for no row: user 2 of the small
  database asked for any type in Benguela, the approved listing 2 is in Benguela, and
  the content result is empty.
\<close>

theorem null_type_drops_every_listing:
  "load_prefs (select_usuario db_exemplo 2) = Inr prefs_qualquer
   \<and> pref_tipo prefs_qualquer = Some JNull
   \<and> pref_provincia prefs_qualquer = Some (JStr (provincia imovel_2))
   \<and> imovel_2 \<in> set (aprovados db_exemplo)
   \<and> get_content_based_recommendations db_exemplo 2 5 = Inr []"
  by (simp add: load_prefs_2 content_2 aprovados_exemplo) (simp add: prefs_qualquer_def imovel_2_def)

text \<open>
  Claim C2, as stated, fails: the collaborative result is the approved catalog filtered
  by membership of the id in the top of the ranking, so its rows are in catalog order.
  For user 1 the ranking is 2, 1, 3 and the result is listing 1 before listing 2.
\<close>

theorem collaborative_order_counterexample:
  "recommended_imoveis (interacoes db_exemplo) 1 5 = [2, 1, 3]
   \<and> records_in_ranking_order (recommended_imoveis (interacoes db_exemplo) 1 5) (aprovados db_exemplo)
       = [imovel_2, imovel_1]
   \<and> get_collaborative_recommendations db_exemplo 1 5 = Inr [imovel_1, imovel_2]
   \<and> get_collaborative_recommendations db_exemplo 1 5
       \<noteq> Inr (records_in_ranking_order (recommended_imoveis (interacoes db_exemplo) 1 5)
               (aprovados db_exemplo))"
  by (simp add: recommended_1 collab_1 aprovados_exemplo records_in_ranking_order_def)
     (simp add: imovel_1_def imovel_2_def)

text \<open>
  Claim C2, amended. For a user with interaction history and a catalog that is not
  empty, the collaborative result is the approved catalog, in catalog order, cut down to
  the listings whose id is among the first \<open>n\<close> of the ranking; a listing that is not
  approved is not in it. The ranking lists every id of the neighbours' rows once with
  the number of its rows, in descending order of that number, and ids with the same
  number keep the order in which they were first met.
\<close>

theorem collaborative_result:
  assumes hist: "user_id \<in> usuario_id ` set (interacoes db)"
    and cat: "aprovados db \<noteq> []"
    and ids: "ids = map imovel_id (similar_users_interactions (interacoes db) user_id)"
  shows "(\<exists>rs. get_collaborative_recommendations db user_id n = Inr rs
            \<and> rs = filter (\<lambda>l. id_imovel l \<in> fst ` set (head n (value_counts ids))) (aprovados db)
            \<and> (\<forall>l. l \<in> set rs \<longleftrightarrow>
                  l \<in> set (imoveis db) \<and> status l = ''aprovado''
                  \<and> id_imovel l \<in> fst ` set (head n (value_counts ids))))
       \<and> sorted_wrt (\<lambda>p q. snd q \<le> snd p) (value_counts ids)
       \<and> distinct (map fst (value_counts ids))
       \<and> (\<forall>k c. (k, c) \<in> set (value_counts ids) \<longleftrightarrow> k \<in> set ids \<and> c = count_list ids k)
       \<and> (\<forall>c. filter (\<lambda>p. snd p = c) (value_counts ids)
                = filter (\<lambda>p. snd p = c) (fold tally ids []))
       \<and> map fst (fold tally ids []) = drop_duplicates (\<lambda>x. x) ids"
proof -
  let ?top = "fst ` set (head n (value_counts ids))"
  have ne: "interacoes db \<noteq> []" using hist by auto
  have "set (recommended_imoveis (interacoes db) user_id n) = ?top"
    by (simp add: recommended_imoveis_def ids)
  then have res: "get_collaborative_recommendations db user_id n
      = Inr (filter (\<lambda>l. id_imovel l \<in> ?top) (aprovados db))"
    using hist cat ne by (simp add: get_collaborative_recommendations_def Let_def set_pivot_index)
  have mem: "l \<in> set (filter (\<lambda>l. id_imovel l \<in> ?top) (aprovados db)) \<longleftrightarrow>
      l \<in> set (imoveis db) \<and> status l = ''aprovado'' \<and> id_imovel l \<in> ?top" for l
    by (auto simp: aprovados_def)
  show ?thesis
    using res mem value_counts_sorted [of ids] value_counts_distinct [of ids]
      value_counts_counts [of _ _ ids] value_counts_stable [of _ ids] fold_tally_first_seen [of ids]
    by blast
qed

theorem collaborative_result_witness:
  "1 \<in> usuario_id ` set (interacoes db_exemplo)
   \<and> aprovados db_exemplo \<noteq> []
   \<and> get_collaborative_recommendations db_exemplo 1 5 = Inr [imovel_1, imovel_2]
   \<and> sorted_wrt (\<lambda>p q. snd q \<le> snd p) (value_counts [2, 2, 1, 3 :: int])"
proof -
  have h1: "1 \<in> usuario_id ` set (interacoes db_exemplo)"
    by (simp add: interacoes_exemplo view_def)
  have h2: "aprovados db_exemplo \<noteq> []"
    by (simp add: aprovados_exemplo)
  have h3: "[2, 2, 1, 3] = map imovel_id (similar_users_interactions (interacoes db_exemplo) 1)"
    by (simp add: neighbour_rows_1)
  note t = collaborative_result [OF h1 h2 h3, of 5]
  from t have "get_collaborative_recommendations db_exemplo 1 5
      = Inr (filter (\<lambda>l. id_imovel l \<in> fst ` set (head 5 (value_counts [2, 2, 1, 3]))) (aprovados db_exemplo))"
    by blast
  then have r: "get_collaborative_recommendations db_exemplo 1 5 = Inr [imovel_1, imovel_2]"
    by (simp add: value_counts_exemplo head_def aprovados_exemplo imovel_1_def imovel_2_def)
  from t have s: "sorted_wrt (\<lambda>p q. snd q \<le> snd p) (value_counts [2, 2, 1, 3 :: int])"
    by blast
  from h1 h2 r s show ?thesis by blast
qed

text \<open>
  Claim C3. There are at most 10 neighbours (lemma \<open>length_similar_users\<close>), but
  they are positions 1 to 10 of all users in descending order of similarity, the target
  among them: position 0 is dropped whoever is there. User 1 and
  user 4 of the small database have the same row, so both have similarity 1 to user 4;
  user 1 comes first and is dropped, and user 4 is a neighbour of user 4, before the two
  users of similarity 0.
\<close>

theorem neighbours_contain_target:
  "user_sim_column (interacoes db_exemplo) 4 = [(1, 1), (2, 0), (3, 0), (4, 1)]
   \<and> similar_users (interacoes db_exemplo) 4 = [4, 2, 3]"
  by (simp add: sim_column_4 similar_users_4)

text \<open>
  Claim C4. For a requested size that is not negative and a catalog whose ids are
  distinct (the primary key), let the two scorers return \<open>content_recs\<close> and
  \<open>collab_recs\<close>. The hybrid result is empty when both are empty, the other one cut to
  \<open>n\<close> when one is empty, and else the content rows followed by the collaborative rows
  whose id is not among the content rows, cut to \<open>n\<close>. The content rows are a prefix of
  the result, no id occurs twice, and the result has at most \<open>n\<close> rows.
\<close>

theorem hybrid_blend:
  assumes n: "0 \<le> n"
    and pk: "distinct (map id_imovel (imoveis db))"
    and c: "get_content_based_recommendations db user_id n = Inr content_recs"
    and k: "get_collaborative_recommendations db user_id n = Inr collab_recs"
  shows "get_hybrid_recommendations db user_id n =
           Inr (if content_recs = [] \<and> collab_recs = [] then []
                else if content_recs = [] then head n collab_recs
                else if collab_recs = [] then head n content_recs
                else head n (content_recs @
                       filter (\<lambda>l. id_imovel l \<notin> id_imovel ` set content_recs) collab_recs))
         \<and> (\<exists>rs. get_hybrid_recommendations db user_id n = Inr rs
                \<and> take (length content_recs) rs = content_recs
                \<and> distinct (map id_imovel rs)
                \<and> int (length rs) \<le> n)"
proof -
  have lc: "int (length content_recs) \<le> n" using n c by (rule content_length)
  have lk: "int (length collab_recs) \<le> n" using n pk k by (rule collab_length)
  have dc: "distinct (map id_imovel content_recs)" using pk c by (rule content_distinct)
  have dk: "distinct (map id_imovel collab_recs)" using pk k by (rule collab_distinct)
  let ?rest = "filter (\<lambda>l. id_imovel l \<notin> id_imovel ` set content_recs) collab_recs"
  have dd: "drop_duplicates id_imovel (content_recs @ collab_recs) = content_recs @ ?rest"
    using dc dk by (rule drop_duplicates_append)
  have h: "get_hybrid_recommendations db user_id n = Inr (combine content_recs collab_recs n)"
    by (simp add: get_hybrid_recommendations_def c k)
  have first: "combine content_recs collab_recs n =
           (if content_recs = [] \<and> collab_recs = [] then []
                else if content_recs = [] then head n collab_recs
                else if collab_recs = [] then head n content_recs
                else head n (content_recs @ ?rest))"
    using lc lk by (simp add: combine_def dd head_id)
  have pre: "take (length content_recs) (combine content_recs collab_recs n) = content_recs"
    using lc n by (simp add: first head_id) (simp add: head_def)
  have "id_imovel ` set content_recs \<inter> id_imovel ` set ?rest = {}"
    by (auto simp: image_iff)
  then have "distinct (map id_imovel (content_recs @ ?rest))"
    using dc dk by (simp add: distinct_map_filter)
  then have "distinct (map id_imovel (head n (content_recs @ ?rest)))"
    unfolding head_nonneg [OF n] by (rule distinct_map_take)
  then have dis: "distinct (map id_imovel (combine content_recs collab_recs n))"
    using dc dk lc lk by (simp add: first head_id)
  have length_features: "int (length (combine content_recs collab_recs n)) \<le> n"
    using lc lk n by (simp add: first head_id length_head)
  show ?thesis using h first pre dis length_features by simp
qed

theorem hybrid_blend_witness:
  "(0::int) \<le> 5
   \<and> distinct (map id_imovel (imoveis db_exemplo))
   \<and> get_content_based_recommendations db_exemplo 1 5 = Inr [imovel_2]
   \<and> get_collaborative_recommendations db_exemplo 1 5 = Inr [imovel_1, imovel_2]
   \<and> get_hybrid_recommendations db_exemplo 1 5 = Inr [imovel_2, imovel_1]"
proof -
  have h1: "(0::int) \<le> 5" by simp
  have h2: "distinct (map id_imovel (imoveis db_exemplo))"
    by (simp add: db_exemplo_def imovel_1_def imovel_2_def imovel_3_def)
  note t = hybrid_blend [OF h1 h2 content_1 collab_1]
  from t [THEN conjunct1] have r: "get_hybrid_recommendations db_exemplo 1 5 = Inr [imovel_2, imovel_1]"
    by (simp add: head_def imovel_1_def imovel_2_def)
  from h1 h2 content_1 collab_1 r show ?thesis by blast
qed

text \<open>
  Claim C5. For a user without a row in the interaction log the collaborative result is
  empty, with no error, and the hybrid result is the content result.
\<close>

theorem cold_start:
  assumes "user_id \<notin> usuario_id ` set (interacoes db)"
  shows "get_collaborative_recommendations db user_id n = Inr []
       \<and> get_hybrid_recommendations db user_id n = get_content_based_recommendations db user_id n"
proof -
  have k: "get_collaborative_recommendations db user_id n = Inr []"
    using assms by (simp add: get_collaborative_recommendations_def Let_def set_pivot_index)
  have "combine rs [] n = rs" for rs
    by (simp add: combine_def)
  then have "get_hybrid_recommendations db user_id n = get_content_based_recommendations db user_id n"
    by (simp add: get_hybrid_recommendations_def k split: sum.splits)
  with k show ?thesis by simp
qed

theorem cold_start_witness:
  "9 \<notin> usuario_id ` set (interacoes db_exemplo)
   \<and> get_collaborative_recommendations db_exemplo 9 5 = Inr []
   \<and> get_hybrid_recommendations db_exemplo 9 5 = get_content_based_recommendations db_exemplo 9 5"
proof -
  have h: "9 \<notin> usuario_id ` set (interacoes db_exemplo)"
    by (simp add: interacoes_exemplo view_def)
  from h cold_start [OF h, of 5] show ?thesis by blast
qed







text \<open>
  Claim C9, as stated, fails: nothing checks \<open>n\<close>. For \<open>n = -1\<close> the three
  functions return results.
\<close>

theorem negative_n_counterexample:
  "get_content_based_recommendations db_exemplo 1 (- 1) = Inr []
   \<and> get_collaborative_recommendations db_exemplo 1 (- 1) = Inr [imovel_1, imovel_2]
   \<and> get_hybrid_recommendations db_exemplo 1 (- 1) = Inr [imovel_1, imovel_2]"
  by (simp add: content_1_neg collab_1_neg hybrid_1_neg)

text \<open>
  Claim C9, amended. For a negative \<open>n\<close> no function fails because of \<open>n\<close>: the
  content result is empty (or the decoding error of a stored text that is not JSON, as
  for every \<open>n\<close>), the collaborative scorer returns a result, taken from all ids of the
  ranking but the last \<open>-n\<close>, and the hybrid result is the collaborative result.
\<close>

theorem negative_n_returns:
  assumes "n < 0"
  shows "(get_content_based_recommendations db user_id n = Inr []
            \<or> get_content_based_recommendations db user_id n = Inl JSONDecodeError)
       \<and> (\<exists>rs. get_collaborative_recommendations db user_id n = Inr rs)
       \<and> recommended_imoveis (interacoes db) user_id n =
           map fst (take (length (value_counts (map imovel_id
                       (similar_users_interactions (interacoes db) user_id))) - nat (- n))
                    (value_counts (map imovel_id (similar_users_interactions (interacoes db) user_id))))
       \<and> get_hybrid_recommendations db user_id n =
           (case get_content_based_recommendations db user_id n of
              Inl e \<Rightarrow> Inl e
            | Inr content_recs \<Rightarrow> get_collaborative_recommendations db user_id n)"
proof -
  have c: "get_content_based_recommendations db user_id n = Inr []
            \<or> get_content_based_recommendations db user_id n = Inl JSONDecodeError"
    using assms
    by (auto simp: get_content_based_recommendations_def Let_def nlargest_def load_prefs_def
        split: sum.splits list.splits option.splits json_text.splits)
  have ex: "\<exists>rs. get_collaborative_recommendations db user_id n = Inr rs"
    by (simp add: get_collaborative_recommendations_def Let_def)
  then obtain rs where k: "get_collaborative_recommendations db user_id n = Inr rs" ..
  have r: "recommended_imoveis (interacoes db) user_id n =
           map fst (take (length (value_counts (map imovel_id
                       (similar_users_interactions (interacoes db) user_id))) - nat (- n))
                    (value_counts (map imovel_id (similar_users_interactions (interacoes db) user_id))))"
    using assms by (simp add: recommended_imoveis_def head_def)
  have "combine [] rs n = rs" by (simp add: combine_def)
  then have h: "get_hybrid_recommendations db user_id n =
           (case get_content_based_recommendations db user_id n of
              Inl e \<Rightarrow> Inl e
            | Inr content_recs \<Rightarrow> get_collaborative_recommendations db user_id n)"
    using c k by (auto simp: get_hybrid_recommendations_def)
  from c ex r h show ?thesis by blast
qed

theorem negative_n_returns_witness:
  "(- 1 :: int) < 0
   \<and> get_content_based_recommendations db_exemplo 1 (- 1) = Inr []
   \<and> get_hybrid_recommendations db_exemplo 1 (- 1) = get_collaborative_recommendations db_exemplo 1 (- 1)"
proof -
  have h: "(- 1 :: int) < 0" by simp
  note t = negative_n_returns [OF h, of db_exemplo 1]
  from t have "get_hybrid_recommendations db_exemplo 1 (- 1) =
           (case get_content_based_recommendations db_exemplo 1 (- 1) of
              Inl e \<Rightarrow> Inl e
            | Inr content_recs \<Rightarrow> get_collaborative_recommendations db_exemplo 1 (- 1))"
    by blast
  then have r: "get_hybrid_recommendations db_exemplo 1 (- 1) = get_collaborative_recommendations db_exemplo 1 (- 1)"
    by (simp add: content_1_neg)
  from h content_1_neg r show ?thesis by blast
qed


end
